theory Spec2Isabelle
  imports Complex_Main "HOL-Library.Sublist"
begin

section \<open>The MobileAlerts history sensor (sensorhistory.py)\<close>

text \<open>
  A shallow embedding of \<^verbatim>\<open>custom_components/mobilealerts/sensorhistory.py\<close>.
  Python floats are modelled as rationals (\<^typ>\<open>rat\<close>): every finite float is a
  rational. Reading a text as a float rounds to the nearest double; the arithmetic on floats
  is exact in the model, which leaves the rounding of IEEE arithmetic, infinities and NaN
  out.
  Python strings are \<^typ>\<open>string\<close>, one \<^typ>\<open>char\<close> per character. Every exception
  is a value of \<open>error\<close>; a function that can raise returns \<open>error + 'a\<close>.
\<close>

subsection \<open>Python values and built-ins\<close>

text \<open>The numbers the module computes with: an \<^verbatim>\<open>int\<close> or a \<^verbatim>\<open>float\<close>.\<close>

datatype pynum = PyInt int | PyFloat rat

text \<open>
  The exceptions of the module. \<open>Exception\<close> carries the message of an explicit
  \<^verbatim>\<open>raise Exception(...)\<close>. \<open>ConnectionError\<close> and \<open>TimeoutError\<close> are Python's built-in
  classes, the ones the handlers in \<^verbatim>\<open>get_results_table\<close> name (the file imports no other
  class of these names). \<open>RequestsConnectionError\<close> and \<open>RequestsTimeout\<close> are
  \<^verbatim>\<open>requests.exceptions.ConnectionError\<close> and \<^verbatim>\<open>requests.exceptions.Timeout\<close>, what
  \<^verbatim>\<open>requests.get\<close> raises on a network failure; they derive from
  \<^verbatim>\<open>RequestException(IOError)\<close> and are not subclasses of the built-in classes.
\<close>

datatype error =
    Exception string
  | ConnectionError
  | TimeoutError
  | RequestsConnectionError
  | RequestsTimeout
  | KeyError
  | ValueError
  | IndexError
  | AttributeError
  | TypeError
  | ZeroDivisionError

text \<open>\<^verbatim>\<open>int(x)\<close> on a float truncates towards zero.\<close>

definition py_int :: "rat \<Rightarrow> int" where
  "py_int x = (if 0 \<le> x then \<lfloor>x\<rfloor> else \<lceil>x\<rceil>)"

text \<open>
  \<^verbatim>\<open>round(x, 1)\<close> on a float: the nearest multiple of one tenth, a tie going to the even
  tenth.
\<close>

definition py_round1 :: "rat \<Rightarrow> rat" where
  "py_round1 x =
     (let y = x * 10; f = \<lfloor>y\<rfloor>; d = y - of_int f
      in of_int (if d < 1 / 2 then f else if 1 / 2 < d then f + 1
                 else if even f then f else f + 1) / 10)"

text \<open>
  \<^verbatim>\<open>max(values)\<close> and \<^verbatim>\<open>min(values)\<close> walk the list and keep the first extreme item;
  \<^verbatim>\<open>sum(values)\<close> adds from the left, starting at 0. On an empty list \<^verbatim>\<open>max\<close> and
  \<^verbatim>\<open>min\<close> raise ValueError.
\<close>

definition py_max :: "rat list \<Rightarrow> error + rat" where
  "py_max values =
     (case values of [] \<Rightarrow> Inl ValueError
      | v # vs \<Rightarrow> Inr (foldl (\<lambda>m x. if m < x then x else m) v vs))"

definition py_min :: "rat list \<Rightarrow> error + rat" where
  "py_min values =
     (case values of [] \<Rightarrow> Inl ValueError
      | v # vs \<Rightarrow> Inr (foldl (\<lambda>m x. if x < m then x else m) v vs))"

definition py_sum :: "rat list \<Rightarrow> rat" where
  "py_sum values = foldl (+) 0 values"

text \<open>\<^verbatim>\<open>values[0]\<close> and \<^verbatim>\<open>values[-1]\<close>; IndexError on an empty list.\<close>

definition py_first :: "'a list \<Rightarrow> error + 'a" where
  "py_first xs = (case xs of [] \<Rightarrow> Inl IndexError | x # _ \<Rightarrow> Inr x)"

definition py_last :: "'a list \<Rightarrow> error + 'a" where
  "py_last xs = (case xs of [] \<Rightarrow> Inl IndexError | _ # _ \<Rightarrow> Inr (last xs))"

subsection \<open>Configuration constants\<close>

definition CONF_MAXIMUM :: string where "CONF_MAXIMUM = ''maximum''"
definition CONF_MINIMUM :: string where "CONF_MINIMUM = ''minimum''"
definition CONF_MEAN :: string where "CONF_MEAN = ''mean''"
definition CONF_DIFFERENCE :: string where "CONF_DIFFERENCE = ''difference''"

subsection \<open>The aggregator of \<^verbatim>\<open>get_reading\<close>\<close>

text \<open>
  Lines 148 to 158: \<open>result\<close> starts as the int 0 and is replaced by the aggregate the
  configured method selects. An unset method (\<open>None\<close>) matches no branch.
\<close>

definition aggregate :: "string option \<Rightarrow> rat list \<Rightarrow> error + pynum" where
  "aggregate method values =
     (if method = Some CONF_MAXIMUM then
        (case py_max values of Inl e \<Rightarrow> Inl e | Inr m \<Rightarrow> Inr (PyFloat m))
      else if method = Some CONF_MINIMUM then
        (case py_min values of Inl e \<Rightarrow> Inl e | Inr m \<Rightarrow> Inr (PyFloat m))
      else if method = Some CONF_MEAN then
        (if length values = 0 then Inl ZeroDivisionError
         else Inr (PyFloat (py_sum values / of_nat (length values))))
      else if method = Some CONF_DIFFERENCE then
        (case py_first values of Inl e \<Rightarrow> Inl e
         | Inr end \<Rightarrow>
             (case py_last values of Inl e \<Rightarrow> Inl e
              | Inr start \<Rightarrow> Inr (PyFloat (end - start))))
      else Inr (PyInt 0))"

text \<open>
  Lines 159 to 162: \<^verbatim>\<open>if result > 100: result = int(result) else: result = round(result, 1)\<close>.
  On an int both \<^verbatim>\<open>int\<close> and \<^verbatim>\<open>round(_, 1)\<close> return it unchanged.
\<close>

fun post_process :: "pynum \<Rightarrow> pynum" where
  "post_process (PyInt i) = (if 100 < i then PyInt i else PyInt i)"
| "post_process (PyFloat r) = (if 100 < r then PyInt (py_int r) else PyFloat (py_round1 r))"

subsection \<open>Strings\<close>

text \<open>\<^verbatim>\<open>str(n)\<close> of an int, as \<^verbatim>\<open>'{0}'.format(n)\<close> renders it.\<close>

definition digit_char :: "nat \<Rightarrow> char" where
  "digit_char n = ''0123456789'' ! (n mod 10)"

fun str_nat :: "nat \<Rightarrow> string" where
  "str_nat n = (if n < 10 then [digit_char n] else str_nat (n div 10) @ [digit_char n])"

declare str_nat.simps [simp del]

definition str_int :: "int \<Rightarrow> string" where
  "str_int i = (if i < 0 then CHR ''-'' # str_nat (nat (- i)) else str_nat (nat i))"

text \<open>\<^verbatim>\<open>sep.join(items)\<close>.\<close>

fun join :: "string \<Rightarrow> string list \<Rightarrow> string" where
  "join sep [] = []"
| "join sep [x] = x"
| "join sep (x # y # ys) = x @ sep @ join sep (y # ys)"

text \<open>
  \<^verbatim>\<open>repr\<close> of a string and of a list of strings, as \<^verbatim>\<open>'{1}'.format(columns)\<close> renders
  the header list. Python quotes with the single quote, or with the double quote when the
  text holds a single quote and no double quote; it escapes the quote in use and the
  backslash with a backslash, writes tab, line feed and carriage return as \<^verbatim>\<open>\t\<close>, \<^verbatim>\<open>\n\<close>
  and \<^verbatim>\<open>\r\<close>, every other character that is not printable as \<^verbatim>\<open>\xhh\<close>, and copies the
  rest. Among the characters below 256 the printable ones are 32 to 126 and 161 to 255
  without 173.
\<close>

definition hex_digit :: "nat \<Rightarrow> char" where
  "hex_digit n = ''0123456789abcdef'' ! (n mod 16)"

definition is_printable :: "char \<Rightarrow> bool" where
  "is_printable c =
     ((32 \<le> (of_char c :: nat) \<and> (of_char c :: nat) < 127) \<or>
      (161 \<le> (of_char c :: nat) \<and> (of_char c :: nat) \<noteq> 173))"

definition repr_char :: "char \<Rightarrow> char \<Rightarrow> string" where
  "repr_char quote c =
     (if c = quote \<or> c = CHR 0x5C then [CHR 0x5C, c]
      else if c = CHR 0x09 then [CHR 0x5C, CHR ''t'']
      else if c = CHR 0x0A then [CHR 0x5C, CHR ''n'']
      else if c = CHR 0x0D then [CHR 0x5C, CHR ''r'']
      else if is_printable c then [c]
      else [CHR 0x5C, CHR ''x'', hex_digit ((of_char c :: nat) div 16), hex_digit (of_char c)])"

definition py_repr :: "string \<Rightarrow> string" where
  "py_repr s =
     (let quote = (if CHR 0x27 \<in> set s \<and> CHR 0x22 \<notin> set s then CHR 0x22 else CHR 0x27)
      in [quote] @ concat (map (repr_char quote) s) @ [quote])"

text \<open>
  A text that \<^verbatim>\<open>repr\<close> copies between single quotes as it is: printable characters
  only, no backslash and no single quote.
\<close>

definition plain_text :: "string \<Rightarrow> bool" where
  "plain_text s = list_all (\<lambda>c. is_printable c \<and> c \<noteq> CHR 0x5C \<and> c \<noteq> CHR 0x27) s"

definition py_repr_list :: "string list \<Rightarrow> string" where
  "py_repr_list xs = ''['' @ join '', '' (map py_repr xs) @ '']''"

text \<open>\<^verbatim>\<open>s.lower()\<close>, on the ASCII letters.\<close>

definition py_lower :: "string \<Rightarrow> string" where
  "py_lower s =
     map (\<lambda>c. case map_of (zip ''ABCDEFGHIJKLMNOPQRSTUVWXYZ'' ''abcdefghijklmnopqrstuvwxyz'') c of
                None \<Rightarrow> c
              | Some l \<Rightarrow> l) s"

text \<open>
  \<^verbatim>\<open>s[:-n]\<close>. For a positive \<open>n\<close> the last \<open>n\<close> characters are dropped; \<^verbatim>\<open>s[:-0]\<close> is
  \<^verbatim>\<open>s[:0]\<close>, the empty string; a negative \<open>n\<close> keeps the first \<open>-n\<close> characters.
\<close>

definition py_slice_to_minus :: "int \<Rightarrow> 'a list \<Rightarrow> 'a list" where
  "py_slice_to_minus n s = (if 0 < n then take (length s - nat n) s else take (nat (- n)) s)"

text \<open>
  The nearest double of a rational, a tie going to the even significand: the value is
  scaled by powers of two until its significand has 53 bits (or the exponent of the
  subnormal doubles, -1074, is reached), and the significand is rounded to an integer. The
  first argument of \<open>scale\<close> bounds the steps; 2200 are enough from the smallest to the
  largest double.
\<close>

definition round_half_even :: "rat \<Rightarrow> int" where
  "round_half_even a =
     (let f = \<lfloor>a\<rfloor>; d = a - of_int f
      in if d < 1 / 2 then f else if 1 / 2 < d then f + 1 else if even f then f else f + 1)"

fun scale :: "nat \<Rightarrow> rat \<Rightarrow> int \<Rightarrow> rat \<times> int" where
  "scale 0 a s = (a, s)"
| "scale (Suc k) a s =
     (if a < 4503599627370496 \<and> - 1074 < s then scale k (a * 2) (s - 1)
      else if 9007199254740992 \<le> a then scale k (a / 2) (s + 1)
      else (a, s))"

definition to_double :: "rat \<Rightarrow> rat" where
  "to_double x =
     (if x = 0 then 0
      else case scale 2200 \<bar>x\<bar> 0 of
             (a, s) \<Rightarrow>
               sgn x * (if 0 \<le> s then of_int (round_half_even a) * 2 ^ nat s
                        else of_int (round_half_even a) / 2 ^ nat (- s)))"

text \<open>
  \<^verbatim>\<open>float(s)\<close> on a decimal literal: blanks around it are stripped, then an optional sign,
  digits with an optional fraction (or a fraction alone), and an optional exponent; single
  underscores may stand between digits. The value is the nearest double. Anything else is a
  ValueError here: the texts \<^verbatim>\<open>inf\<close> and \<^verbatim>\<open>nan\<close>, which Python reads as floats that are
  no numbers, are outside the model, as are literals beyond the largest double.
\<close>

definition is_digit :: "char \<Rightarrow> bool" where
  "is_digit c = (48 \<le> (of_char c :: nat) \<and> (of_char c :: nat) \<le> 57)"

definition is_space :: "char \<Rightarrow> bool" where
  "is_space c = ((of_char c :: nat) = 32 \<or> (9 \<le> (of_char c :: nat) \<and> (of_char c :: nat) \<le> 13))"

definition digits_value :: "string \<Rightarrow> nat" where
  "digits_value ds = foldl (\<lambda>n c. 10 * n + ((of_char c :: nat) - 48)) 0 ds"

definition py_strip :: "string \<Rightarrow> string" where
  "py_strip s = rev (dropWhile is_space (rev (dropWhile is_space s)))"

text \<open>An underscore is dropped when it stands between two digits, and refused otherwise.\<close>

fun drop_underscores :: "char option \<Rightarrow> string \<Rightarrow> string option" where
  "drop_underscores prev [] = Some []"
| "drop_underscores prev (c # cs) =
     (if c = CHR ''_'' then
        (case (prev, cs) of
           (Some p, n # ns) \<Rightarrow>
             if is_digit p \<and> is_digit n then drop_underscores (Some c) cs else None
         | _ \<Rightarrow> None)
      else map_option ((#) c) (drop_underscores (Some c) cs))"

definition pow10 :: "int \<Rightarrow> rat" where
  "pow10 k = (if 0 \<le> k then 10 ^ nat k else 1 / 10 ^ nat (- k))"

text \<open>The exponent part: nothing, or \<^verbatim>\<open>e\<close> or \<^verbatim>\<open>E\<close>, an optional sign and digits.\<close>

definition exponent :: "string \<Rightarrow> int option" where
  "exponent r =
     (case r of
        [] \<Rightarrow> Some 0
      | c # ds \<Rightarrow>
          if c = CHR ''e'' \<or> c = CHR ''E'' then
            (case ds of
               [] \<Rightarrow> None
             | d # ds' \<Rightarrow>
                 if d = CHR ''-'' \<or> d = CHR ''+'' then
                   (if ds' \<noteq> [] \<and> list_all is_digit ds'
                    then Some ((if d = CHR ''-'' then - 1 else 1) * int (digits_value ds'))
                    else None)
                 else if list_all is_digit ds then Some (int (digits_value ds))
                 else None)
          else None)"

definition unsigned_float :: "string \<Rightarrow> error + rat" where
  "unsigned_float u =
     (let ip = takeWhile is_digit u;
          r1 = dropWhile is_digit u;
          fp = (case r1 of [] \<Rightarrow> [] | c # r \<Rightarrow> if c = CHR ''.'' then takeWhile is_digit r else []);
          r2 = (case r1 of [] \<Rightarrow> [] | c # r \<Rightarrow> if c = CHR ''.'' then dropWhile is_digit r else r1)
      in if ip = [] \<and> fp = [] then Inl ValueError
         else (case exponent r2 of
                 None \<Rightarrow> Inl ValueError
               | Some e \<Rightarrow>
                   Inr (to_double (of_nat (digits_value (ip @ fp)) * pow10 (e - int (length fp))))))"

definition py_float :: "string \<Rightarrow> error + rat" where
  "py_float s =
     (case drop_underscores None (py_strip s) of
        None \<Rightarrow> Inl ValueError
      | Some [] \<Rightarrow> Inl ValueError
      | Some (c # r) \<Rightarrow>
          if c = CHR ''-'' then map_sum id uminus (unsigned_float r)
          else if c = CHR ''+'' then unsigned_float r
          else unsigned_float (c # r))"

fun floats :: "string list \<Rightarrow> error + rat list" where
  "floats [] = Inr []"
| "floats (s # ss) =
     (case py_float s of Inl e \<Rightarrow> Inl e
      | Inr v \<Rightarrow> (case floats ss of Inl e \<Rightarrow> Inl e | Inr vs \<Rightarrow> Inr (v # vs)))"

text \<open>\<^verbatim>\<open>xs.index(x)\<close>: the first position of \<open>x\<close>; \<open>None\<close> stands for the ValueError.\<close>

fun py_index :: "'a list \<Rightarrow> 'a \<Rightarrow> nat option" where
  "py_index [] x = None"
| "py_index (y # ys) x = (if y = x then Some 0 else map_option Suc (py_index ys x))"

subsection \<open>The data model\<close>

text \<open>
  The first \<^verbatim>\<open><table>\<close> of the page as BeautifulSoup hands it over: the texts of the
  \<^verbatim>\<open><th>\<close> cells of its \<^verbatim>\<open>thead\<close> and, per \<^verbatim>\<open><tr>\<close> of its \<^verbatim>\<open>tbody\<close>, the texts
  of the \<^verbatim>\<open><td>\<close> cells (\<^verbatim>\<open>contents[0]\<close> of each cell). A table without \<^verbatim>\<open>thead\<close> or
  \<^verbatim>\<open>tbody\<close> has \<open>None\<close> there, and reading it raises AttributeError.
\<close>

record table =
  thead :: "string list option"
  tbody :: "string list list option"

text \<open>
  What \<^verbatim>\<open>requests.get\<close> does: it raises, or returns a response with a status code and a
  body, given here by the tables \<^verbatim>\<open>soup.find_all('table')\<close> finds in it.
\<close>

datatype http_outcome = Raises error | Response nat "table list"

text \<open>What a call does to the outside: the GET it issues (url and headers), the warnings it logs.\<close>

datatype event = HttpGet string "(string \<times> string) list" | Warning string

text \<open>
  An aware \<^verbatim>\<open>datetime\<close>: the wall clock of its zone in microseconds since
  1970-01-01T00:00:00 on that clock, its \<^verbatim>\<open>fold\<close>, and the \<^verbatim>\<open>utcoffset\<close> of its
  \<^verbatim>\<open>tzinfo\<close> in microseconds, a function of wall clock and fold.
\<close>

record datetime =
  dt_wall :: int
  dt_fold :: bool
  dt_utcoffset :: "int \<Rightarrow> bool \<Rightarrow> int"

text \<open>
  \<^verbatim>\<open>d - timedelta(seconds = s)\<close>: Python moves the wall clock and keeps the
  \<^verbatim>\<open>tzinfo\<close>, with no adjustment of the zone; the result has fold 0. The range of
  \<^verbatim>\<open>datetime\<close> (years 1 to 9999) is not modelled.
\<close>

definition minus_seconds :: "datetime \<Rightarrow> int \<Rightarrow> datetime" where
  "minus_seconds d s = d\<lparr>dt_wall := dt_wall d - s * 1000000, dt_fold := False\<rparr>"

text \<open>\<^verbatim>\<open>d.timestamp()\<close> of an aware datetime: seconds since the epoch, in UTC.\<close>

definition timestamp :: "datetime \<Rightarrow> rat" where
  "timestamp d = of_int (dt_wall d - dt_utcoffset d (dt_wall d) (dt_fold d)) / 1000000"

text \<open>
  What one call of an update sees of the world: the reading of \<^verbatim>\<open>dt.now(tz)\<close>, the
  answer of the server to a GET, and the readings of \<^verbatim>\<open>utcnow()\<close> (microseconds) the
  throttle takes before and after the throttled method runs.
\<close>

record world =
  dt_now :: datetime
  requests_get :: "string \<Rightarrow> http_outcome"
  utcnow_before :: int
  utcnow_after :: int

text \<open>
  The helpers \<^verbatim>\<open>extract_start_stop\<close> and \<^verbatim>\<open>extract_value_units\<close> are imported from
  the package and are parameters of the model: the first maps a decorated string to
  \<open>(reading_from_end, unit_from_end)\<close>, the second to \<open>(value, unit)\<close>.
\<close>

record helpers =
  extract_start_stop :: "string \<Rightarrow> int \<times> int"
  extract_value_units :: "string option \<Rightarrow> pynum option \<times> string"

text \<open>A value of a column: a float when \<open>is_numeric\<close>, the text otherwise.\<close>

datatype measurement = Reading rat | Text string

text \<open>
  \<^verbatim>\<open>MobileAlertsData\<close>. \<open>mad_throttle\<close> is the time stamp \<^verbatim>\<open>Throttle\<close> keeps on the
  instance (\<^verbatim>\<open>host._throttle[id(self)][1]\<close>): \<open>None\<close> until the first \<^verbatim>\<open>update\<close> returns.
\<close>

record MobileAlertsData =
  mad_device_id :: string
  mad_device_class :: "string option"
  mad_duration :: int
  mad_method :: "string option"
  mad_time_zone :: string
  mad_unit :: "string option"
  mad_data :: "pynum option"
  mad_throttle :: "int option"

text \<open>\<^verbatim>\<open>MobileAlertsWeather\<close>, the sensor entity.\<close>

record MobileAlertsWeather =
  sensor_name :: string
  sensor_mad :: "MobileAlertsData option"
  sensor_device_class :: "string option"
  sensor_weather :: "string option"
  sensor_state :: "pynum option"
  sensor_unit_of_measurement :: "string option"
  sensor_attributes :: "(string \<times> string) list"

text \<open>
  The host: what \<^verbatim>\<open>hass.states.get(id)\<close> returns for an entity id (the attributes of the
  entity, or \<open>None\<close>), and \<^verbatim>\<open>hass.config.time_zone\<close>.
\<close>

record hass =
  hass_states :: "string \<Rightarrow> (string \<Rightarrow> string option) option"
  hass_time_zone :: string

text \<open>The validated platform configuration (\<^verbatim>\<open>PLATFORM_SCHEMA\<close>), defaults filled in.\<close>

record config =
  conf_name :: string
  conf_device_id :: string
  conf_device_class :: "string option"
  conf_mode :: string
  conf_devices :: "string list"
  conf_method :: "string option"
  conf_duration :: int
  conf_weather :: "string option"

definition ATTRIBUTION :: string where "ATTRIBUTION = ''Data provided by ''"
definition ATTR_ATTRIBUTION :: string where "ATTR_ATTRIBUTION = ''attribution''"

text \<open>\<^verbatim>\<open>MIN_TIME_BETWEEN_UPDATES = timedelta(hours=1)\<close>, in microseconds.\<close>

definition MIN_TIME_BETWEEN_UPDATES :: int where
  "MIN_TIME_BETWEEN_UPDATES = 3600 * 1000000"

definition DEVICE_CLASS :: "(string \<times> string) list" where
  "DEVICE_CLASS =
     [(''temperature'', ''Temperature''), (''wind_speed'', ''Wind speed''),
      (''humidity'', ''Humidity''), (''pressure'', ''Pressure''),
      (''rain'', ''Rain''), (''snow'', ''Snow'')]"

definition MODE_TYPES :: "string list" where
  "MODE_TYPES = [''historic'', ''current'']"

subsection \<open>\<^verbatim>\<open>get_device_history_url\<close>\<close>

text \<open>A value of the \<open>params\<close> dict and its rendering by \<^verbatim>\<open>'{1}'.format(val)\<close>.\<close>

datatype param = PStr string | PInt int

fun py_str :: "param \<Rightarrow> string" where
  "py_str (PStr s) = s"
| "py_str (PInt i) = str_int i"

text \<open>\<^verbatim>\<open>params.update({key: val})\<close> on a dict in insertion order.\<close>

fun dict_update :: "(string \<times> param) list \<Rightarrow> string \<Rightarrow> param \<Rightarrow> (string \<times> param) list" where
  "dict_update [] key val = [(key, val)]"
| "dict_update ((k, v) # kvs) key val =
     (if k = key then (k, val) # kvs else (k, v) # dict_update kvs key val)"

text \<open>
  The \<open>params\<close> dict when the URL is joined (lines 173 to 182), for the reading \<open>now\<close> of
  \<^verbatim>\<open>dt.now(dt.get_time_zone(self._time_zone))\<close>.
\<close>

definition history_params :: "datetime \<Rightarrow> string \<Rightarrow> int \<Rightarrow> (string \<times> param) list" where
  "history_params now device_id duration =
     (let params0 = [(''vendorid'', PStr ''bb8e868c-e5fd-4130-8d72-b08d1013c98e''),
                     (''appbundle'', PStr ''eu.mobile_alerts.mobilealerts'')];
          params1 = dict_update params0 ''deviceid'' (PStr device_id);
          start_of_period = minus_seconds now (duration * 60 * 60);
          params2 = dict_update params1 ''fromepoch'' (PInt (py_int (timestamp start_of_period)))
      in dict_update params2 ''toepoch'' (PInt (py_int (timestamp now))))"

definition get_device_history_url :: "datetime \<Rightarrow> string \<Rightarrow> int \<Rightarrow> string" where
  "get_device_history_url now device_id duration =
     (let base_url = ''https://measurements.mobile-alerts.eu/Home/MeasurementDetails'';
          params = history_params now device_id duration;
          all_params = join ''&'' (map (\<lambda>(key, val). key @ ''='' @ py_str val) params)
      in base_url @ ''?'' @ all_params)"

subsection \<open>\<^verbatim>\<open>get_results_table\<close>\<close>

text \<open>
  The two handlers catch the built-in ConnectionError and TimeoutError; any other
  exception of the GET leaves the function. The result is the table, \<open>None\<close> for "no
  data", or the exception raised; the events are the GET and the warnings logged.
\<close>

definition get_results_table ::
    "world \<Rightarrow> string \<Rightarrow> int \<Rightarrow> (error + table option) \<times> event list" where
  "get_results_table w device_id duration =
     (let url = get_device_history_url (dt_now w) device_id duration;
          headers = [(''User-Agent'', ''Mozilla/5.0'')]
      in case requests_get w url of
           Raises e \<Rightarrow>
             if e = ConnectionError then
               (Inr None, [HttpGet url headers, Warning (''Unable to connect to MA URL : '' @ url)])
             else if e = TimeoutError then
               (Inr None, [HttpGet url headers, Warning ''Timeout connecting to MA URL''])
             else (Inl e, [HttpGet url headers])
         | Response status_code tables \<Rightarrow>
             if status_code \<noteq> 200 then
               (Inl (Exception (''requests getting data: '' @ str_nat status_code @ '', '' @ url)),
                [HttpGet url headers])
             else if length tables = 0 then
               (Inr None, [HttpGet url headers, Warning (''No data returned : '' @ url)])
             else (Inr (Some (tables ! 0)), [HttpGet url headers]))"

subsection \<open>\<^verbatim>\<open>get_position\<close> and \<^verbatim>\<open>get_measurements\<close>\<close>

definition get_position :: "table \<Rightarrow> string \<Rightarrow> error + nat" where
  "get_position data_table column_name =
     (case thead data_table of
        None \<Rightarrow> Inl AttributeError
      | Some columns \<Rightarrow>
          (case py_index columns column_name of
             None \<Rightarrow>
               Inl (Exception (''Column '' @ column_name @ '' not found in sensor data ''
                      @ py_repr_list columns))
           | Some col_no \<Rightarrow> Inr col_no))"

text \<open>\<^verbatim>\<open>x.find_all('td')[col].contents[0]\<close> for every row; IndexError on a short row.\<close>

fun cells_at :: "nat \<Rightarrow> string list list \<Rightarrow> error + string list" where
  "cells_at col [] = Inr []"
| "cells_at col (x # xs) =
     (if col < length x
      then (case cells_at col xs of Inl e \<Rightarrow> Inl e | Inr cs \<Rightarrow> Inr (x ! col # cs))
      else Inl IndexError)"

definition get_measurements ::
    "helpers \<Rightarrow> table \<Rightarrow> string \<Rightarrow> bool \<Rightarrow> error + (measurement list \<times> string)" where
  "get_measurements h data_table column_name is_numeric =
     (case get_position data_table column_name of
        Inl e \<Rightarrow> Inl e
      | Inr col \<Rightarrow>
          (case tbody data_table of
             None \<Rightarrow> Inl AttributeError
           | Some rows \<Rightarrow>
               (case cells_at col rows of
                  Inl e \<Rightarrow> Inl e
                | Inr measurements \<Rightarrow>
                    if length measurements = 0 then Inr ([], '''')
                    else
                      (let (reading_from_end, unit_from_end) =
                             extract_start_stop h (measurements ! 0);
                           (first_value, unit) =
                             extract_value_units h (Some (measurements ! 0))
                       in if is_numeric then
                            (case floats (map (py_slice_to_minus reading_from_end) measurements) of
                               Inl e \<Rightarrow> Inl e
                             | Inr vs \<Rightarrow> Inr (map Reading vs, unit))
                          else
                            Inr (map (\<lambda>s. Text (py_slice_to_minus reading_from_end s)) measurements,
                                 unit)))))"

subsection \<open>\<^verbatim>\<open>get_reading\<close>\<close>

text \<open>
  \<^verbatim>\<open>get_reading\<close> asks for numeric measurements, so \<open>values\<close> is a list of floats; a text
  among them would fail in the arithmetic.
\<close>

fun readings :: "measurement list \<Rightarrow> error + rat list" where
  "readings [] = Inr []"
| "readings (Reading v # ms) =
     (case readings ms of Inl e \<Rightarrow> Inl e | Inr vs \<Rightarrow> Inr (v # vs))"
| "readings (Text s # ms) = Inl TypeError"

definition get_reading ::
    "helpers \<Rightarrow> world \<Rightarrow> MobileAlertsData \<Rightarrow> (error + (pynum option \<times> string)) \<times> event list" where
  "get_reading h w self =
     (case get_results_table w (mad_device_id self) (mad_duration self) of
        (Inl e, ev) \<Rightarrow> (Inl e, ev)
      | (Inr None, ev) \<Rightarrow> (Inr (None, ''''), ev)
      | (Inr (Some data_table), ev) \<Rightarrow>
          (case (case mad_device_class self of None \<Rightarrow> None | Some c \<Rightarrow> map_of DEVICE_CLASS c) of
             None \<Rightarrow> (Inl KeyError, ev)
           | Some column_name \<Rightarrow>
               (case get_measurements h data_table column_name True of
                  Inl e \<Rightarrow> (Inl e, ev)
                | Inr (values, unit) \<Rightarrow>
                    if length values = 0 then (Inr (Some (PyInt 0), ''''), ev)
                    else
                      (case readings values of
                         Inl e \<Rightarrow> (Inl e, ev)
                       | Inr vs \<Rightarrow>
                           (case aggregate (mad_method self) vs of
                              Inl e \<Rightarrow> (Inl e, ev)
                            | Inr result \<Rightarrow> (Inr (Some (post_process result), unit), ev))))))"

subsection \<open>\<^verbatim>\<open>MobileAlertsData.update\<close> under \<^verbatim>\<open>Throttle\<close>\<close>

text \<open>
  The body of \<^verbatim>\<open>update\<close> (lines 126 to 133). No statement of the module assigns to the
  instance before a point where it can raise, so an exception leaves the instance as it
  was: the result \<open>Inl e\<close> carries no new state.
\<close>

definition update_body ::
    "helpers \<Rightarrow> world \<Rightarrow> MobileAlertsData \<Rightarrow> (error + MobileAlertsData) \<times> event list" where
  "update_body h w self =
     (case get_reading h w self of
        (Inl e, ev) \<Rightarrow> (Inl e, ev)
      | (Inr (obs, unit), ev) \<Rightarrow>
          (case obs of
             None \<Rightarrow> (Inr self, ev @ [Warning ''Failed to fetch data from OWM''])
           | Some v \<Rightarrow> (Inr (self\<lparr>mad_data := Some v, mad_unit := Some unit\<rparr>), ev)))"

text \<open>
  \<^verbatim>\<open>@Throttle(MIN_TIME_BETWEEN_UPDATES)\<close>, the decorator of the host framework
  (\<^verbatim>\<open>homeassistant.util.Throttle\<close>): the method runs when it has not returned before on this
  instance or when \<^verbatim>\<open>utcnow() - last > min_time\<close>; the time stamp is taken after the method
  has returned, and not when it raises. A throttled call does nothing and returns \<open>None\<close>.
  The entity calls \<^verbatim>\<open>update\<close> from one thread, so the lock of the decorator is free.
\<close>

definition throttle_open :: "world \<Rightarrow> MobileAlertsData \<Rightarrow> bool" where
  "throttle_open w self =
     (case mad_throttle self of
        None \<Rightarrow> True
      | Some last_run \<Rightarrow> MIN_TIME_BETWEEN_UPDATES < utcnow_before w - last_run)"

definition mad_update ::
    "helpers \<Rightarrow> world \<Rightarrow> MobileAlertsData \<Rightarrow> (error + MobileAlertsData) \<times> event list" where
  "mad_update h w self =
     (if throttle_open w self then
        (case update_body h w self of
           (Inl e, ev) \<Rightarrow> (Inl e, ev)
         | (Inr self', ev) \<Rightarrow> (Inr (self'\<lparr>mad_throttle := Some (utcnow_after w)\<rparr>), ev))
      else (Inr self, []))"

subsection \<open>\<^verbatim>\<open>MobileAlertsWeather\<close>\<close>

definition MobileAlertsWeather_init ::
    "string \<Rightarrow> MobileAlertsData option \<Rightarrow> string option \<Rightarrow> string option \<Rightarrow> MobileAlertsWeather" where
  "MobileAlertsWeather_init name mad device_class weather =
     \<lparr>sensor_name = name, sensor_mad = mad, sensor_device_class = device_class,
      sensor_weather = weather, sensor_state = None, sensor_unit_of_measurement = Some '''',
      sensor_attributes =
        [(ATTR_ATTRIBUTION,
          ATTRIBUTION @ (case weather of None \<Rightarrow> ''MobileAlerts'' | Some source \<Rightarrow> source))]\<rparr>"

definition current :: "string \<Rightarrow> string \<Rightarrow> string \<Rightarrow> MobileAlertsWeather" where
  "current name device_class weather =
     MobileAlertsWeather_init name None (Some device_class) (Some weather)"

definition historic :: "string \<Rightarrow> MobileAlertsData \<Rightarrow> MobileAlertsWeather" where
  "historic name mad = MobileAlertsWeather_init name (Some mad) None None"

text \<open>
  \<^verbatim>\<open>MobileAlertsWeather.update\<close>. In historic mode an exception of the fetcher leaves the
  method before the two assignments. In current mode a missing weather entity fails on
  \<^verbatim>\<open>weather.attributes\<close>.
\<close>

definition sensor_update ::
    "helpers \<Rightarrow> hass \<Rightarrow> world \<Rightarrow> MobileAlertsWeather \<Rightarrow> (error + MobileAlertsWeather) \<times> event list" where
  "sensor_update h hs w self =
     (case sensor_weather self of
        None \<Rightarrow>
          (case sensor_mad self of
             None \<Rightarrow> (Inl AttributeError, [])
           | Some mad \<Rightarrow>
               (case mad_update h w mad of
                  (Inl e, ev) \<Rightarrow> (Inl e, ev)
                | (Inr mad', ev) \<Rightarrow>
                    (Inr (self\<lparr>sensor_mad := Some mad', sensor_state := mad_data mad',
                               sensor_unit_of_measurement := mad_unit mad'\<rparr>), ev)))
      | Some entity_id \<Rightarrow>
          (case hass_states hs entity_id of
             None \<Rightarrow> (Inl AttributeError, [])
           | Some attributes \<Rightarrow>
               (let sensor_value =
                      (case sensor_device_class self of None \<Rightarrow> None | Some c \<Rightarrow> attributes c);
                    (state, unit) = extract_value_units h sensor_value
                in (Inr (self\<lparr>sensor_state := state, sensor_unit_of_measurement := Some unit\<rparr>),
                    []))))"

subsection \<open>\<^verbatim>\<open>async_setup_platform\<close>\<close>

definition MobileAlertsData_init ::
    "hass \<Rightarrow> string \<Rightarrow> string option \<Rightarrow> string option \<Rightarrow> int \<Rightarrow> MobileAlertsData" where
  "MobileAlertsData_init hs device_id device_class method duration =
     \<lparr>mad_device_id = device_id, mad_device_class = device_class, mad_duration = duration,
      mad_method = method, mad_time_zone = hass_time_zone hs, mad_unit = None,
      mad_data = None, mad_throttle = None\<rparr>"

text \<open>
  The result is the list of calls of \<^verbatim>\<open>async_add_entities\<close>: the entities and the
  \<open>update_before_add\<close> flag of each. \<^verbatim>\<open>hass.states.get\<close> lower-cases the id it is given,
  which fails with AttributeError on an unset weather option.
\<close>

definition async_setup_platform ::
    "hass \<Rightarrow> config \<Rightarrow> error + (MobileAlertsWeather list \<times> bool) list" where
  "async_setup_platform hs cfg =
     (let name = conf_name cfg;
          device_class = conf_device_class cfg;
          device_id = conf_device_id cfg
      in if device_id \<noteq> '''' then
           (let method = conf_method cfg;
                duration = conf_duration cfg;
                mad = MobileAlertsData_init hs device_id device_class method duration
            in Inr [([historic name mad], True)])
         else
           (case conf_weather cfg of
              None \<Rightarrow> Inl AttributeError
            | Some ma_weather \<Rightarrow>
                if hass_states hs ma_weather = None then
                  Inl (Exception (''weather Entity '' @ ma_weather @ '' not found''))
                else
                  Inr (map (\<lambda>device_class.
                              ([current (py_lower name @ ''_'' @ device_class) device_class ma_weather],
                               False))
                           (conf_devices cfg))))"

subsection \<open>The requests among the events\<close>

text \<open>The URLs of the GETs a call has issued, in order.\<close>

fun requests_of :: "event list \<Rightarrow> string list" where
  "requests_of [] = []"
| "requests_of (HttpGet url headers # evs) = url # requests_of evs"
| "requests_of (Warning message # evs) = requests_of evs"

subsection \<open>Instances for the examples\<close>

text \<open>
  An instance of the two helpers, after the design note of the specification: the unit of a
  decorated string is its trailing run of characters that are neither digits nor the decimal
  point. The helpers of the package itself are not among the sources at hand; the theorems
  below hold for every instance.
\<close>

definition unit_suffix :: "string \<Rightarrow> string" where
  "unit_suffix s = rev (takeWhile (\<lambda>c. \<not> is_digit c \<and> c \<noteq> CHR ''.'') (rev s))"

definition example_helpers :: helpers where
  "example_helpers =
     \<lparr>extract_start_stop = (\<lambda>s. (int (length (unit_suffix s)), 0)),
      extract_value_units =
        (\<lambda>v. case v of
               None \<Rightarrow> (None, [])
             | Some s \<Rightarrow>
                 (case py_float (take (length s - length (unit_suffix s)) s) of
                    Inl e \<Rightarrow> (None, unit_suffix s)
                  | Inr r \<Rightarrow> (Some (PyFloat r), unit_suffix s)))\<rparr>"

text \<open>A zone of a fixed offset, and the zone of Berlin around the end of summer time 2026.\<close>

definition fixed_offset :: "int \<Rightarrow> int \<Rightarrow> bool \<Rightarrow> int" where
  "fixed_offset seconds wall fld = seconds * 1000000"

text \<open>
  2026-10-25T03:00 summer time is 1792897200 seconds on the wall clock; from there on the
  offset is one hour, before it two (the repeated hour from 02:00 is read by its fold).
\<close>

definition berlin_autumn_2026 :: "int \<Rightarrow> bool \<Rightarrow> int" where
  "berlin_autumn_2026 wall fld =
     (if wall < 1792893600 * 1000000 then 7200 * 1000000
      else if wall < 1792897200 * 1000000 then (if fld then 3600 * 1000000 else 7200 * 1000000)
      else 3600 * 1000000)"

text \<open>A page with one table, and a world that serves it at a given time.\<close>

definition example_table :: "string list list \<Rightarrow> table" where
  "example_table rows =
     \<lparr>thead = Some [''Time'', ''Temperature'', ''Humidity''], tbody = Some rows\<rparr>"

definition example_world :: "int \<Rightarrow> http_outcome \<Rightarrow> world" where
  "example_world seconds outcome =
     \<lparr>dt_now = \<lparr>dt_wall = seconds * 1000000, dt_fold = False, dt_utcoffset = fixed_offset 0\<rparr>,
      requests_get = (\<lambda>url. outcome),
      utcnow_before = seconds * 1000000,
      utcnow_after = seconds * 1000000 + 250000\<rparr>"

definition example_mad :: MobileAlertsData where
  "example_mad =
     \<lparr>mad_device_id = ''0301548CBC4A'', mad_device_class = Some ''temperature'',
      mad_duration = 24, mad_method = Some CONF_MAXIMUM, mad_time_zone = ''UTC'',
      mad_unit = None, mad_data = None, mad_throttle = None\<rparr>"

text \<open>A configuration, by device id and mode option, and a host with one weather entity.\<close>

definition example_config :: "string \<Rightarrow> string \<Rightarrow> config" where
  "example_config device_id mode =
     \<lparr>conf_name = ''MA Garden'', conf_device_id = device_id,
      conf_device_class = Some ''temperature'', conf_mode = mode,
      conf_devices = [''temperature'', ''humidity''], conf_method = Some CONF_MAXIMUM,
      conf_duration = 24, conf_weather = Some ''weather.home''\<rparr>"

definition example_hass :: hass where
  "example_hass =
     \<lparr>hass_states = (\<lambda>entity_id. if entity_id = ''weather.home''
                                  then Some (map_of [(''temperature'', ''21.5 C'')]) else None),
      hass_time_zone = ''UTC''\<rparr>"

text \<open>A fetcher that holds a value from an earlier update.\<close>

definition example_cached :: MobileAlertsData where
  "example_cached = example_mad\<lparr>mad_data := Some (PyFloat (43 / 2)), mad_unit := Some ''C''\<rparr>"

section \<open>Properties\<close>

subsection \<open>The built-ins\<close>






lemma floor_rat_numeral [simp]:
  "\<lfloor>numeral a / numeral b :: rat\<rfloor> = numeral a div numeral b"
  by (metis floor_divide_of_int_eq of_int_numeral)

lemma floor_rat_minus_numeral [simp]:
  "\<lfloor>- (numeral a / numeral b) :: rat\<rfloor> = - numeral a div numeral b"
  by (metis divide_minus_left floor_divide_of_int_eq of_int_neg_numeral of_int_numeral)

lemma ceiling_rat_numeral [simp]:
  "\<lceil>numeral a / numeral b :: rat\<rceil> = - (- numeral a div numeral b)"
  unfolding ceiling_def by simp

lemma ceiling_rat_minus_numeral [simp]:
  "\<lceil>- (numeral a / numeral b) :: rat\<rceil> = - (numeral a div numeral b)"
  unfolding ceiling_def by simp

lemma py_int_floor: "0 \<le> x \<Longrightarrow> py_int x = \<lfloor>x\<rfloor>"
  by (simp add: py_int_def)

lemma py_round1_nearest:
  "\<exists>k. py_round1 r = of_int k / 10 \<and> \<bar>of_int k / 10 - r\<bar> \<le> 1 / 20"
proof -
  define f where "f = \<lfloor>r * 10\<rfloor>"
  define d where "d = r * 10 - of_int f"
  have d: "0 \<le> d" "d < 1" unfolding d_def f_def by linarith+
  show ?thesis
    unfolding py_round1_def Let_def f_def [symmetric] d_def [symmetric]
    using d by (auto simp: d_def field_simps intro!: exI)
qed

subsection \<open>The rounding rule\<close>

text \<open>
  C1, as amended. The test of \<^verbatim>\<open>get_reading\<close> is \<^verbatim>\<open>result > 100\<close>, a signed comparison:
  a result above 100 is returned truncated to an int (its floor), and every other result,
  every negative one among them, is returned rounded to one decimal place: a multiple of one
  tenth at most one twentieth away from it. An int result is returned as it is.
\<close>

theorem post_process_rounding:
  "(100 < r \<longrightarrow> post_process (PyFloat r) = PyInt \<lfloor>r\<rfloor>) \<and>
   (r \<le> 100 \<longrightarrow>
      (\<exists>k. post_process (PyFloat r) = PyFloat (of_int k / 10) \<and> \<bar>of_int k / 10 - r\<bar> \<le> 1 / 20)) \<and>
   post_process (PyInt i) = PyInt i"
proof (intro conjI impI)
  assume "100 < r"
  then show "post_process (PyFloat r) = PyInt \<lfloor>r\<rfloor>"
    by (simp add: py_int_floor)
next
  assume "r \<le> 100"
  then have "post_process (PyFloat r) = PyFloat (py_round1 r)" by simp
  with py_round1_nearest [of r]
  show "\<exists>k. post_process (PyFloat r) = PyFloat (of_int k / 10) \<and> \<bar>of_int k / 10 - r\<bar> \<le> 1 / 20"
    by auto
next
  show "post_process (PyInt i) = PyInt i" by simp
qed

text \<open>The two results of the specification: 150.456 gives 150, and 42.345 gives 42.3.\<close>

theorem post_process_rounding_witness:
  "post_process (PyFloat (150456 / 1000)) = PyInt 150 \<and>
   post_process (PyFloat (42345 / 1000)) = PyFloat (423 / 10)"
  using post_process_rounding [of "150456 / 1000" 0] post_process_rounding [of "42345 / 1000" 0]
  by (simp add: py_round1_def Let_def)

text \<open>
  C1 as stated fails: the magnitude of -150.456 exceeds 100, and it is returned rounded to
  one decimal place, -150.5, not truncated to -150.
\<close>

theorem post_process_magnitude_counterexample:
  "100 < \<bar>- 150456 / 1000 :: rat\<bar> \<and>
   post_process (PyFloat (- 150456 / 1000)) = PyFloat (- 1505 / 10) \<and>
   post_process (PyFloat (- 150456 / 1000)) \<noteq> PyInt (py_int (- 150456 / 1000))"
  by (simp add: py_round1_def Let_def)

subsection \<open>The aggregator\<close>



subsection \<open>The column locator\<close>

lemma py_index_None: "py_index xs x = None \<longleftrightarrow> x \<notin> set xs"
  by (induction xs) auto

lemma py_index_Some:
  "py_index xs x = Some i \<Longrightarrow> i < length xs \<and> xs ! i = x \<and> (\<forall>j<i. xs ! j \<noteq> x)"
proof (induction xs arbitrary: i)
  case Nil
  then show ?case by simp
next
  case (Cons y ys)
  show ?case
  proof (cases "y = x")
    case True
    with Cons.prems show ?thesis by simp
  next
    case False
    with Cons.prems obtain k where k: "py_index ys x = Some k" "i = Suc k" by auto
    from Cons.IH [OF k(1)] False k(2) show ?thesis
      by (auto simp: nth_Cons split: nat.splits)
  qed
qed

lemma sublist_join:
  "c \<in> set xs \<Longrightarrow> sublist c (join sep xs)"
proof (induction sep xs rule: join.induct)
  case (1 sep)
  then show ?case by simp
next
  case (2 sep x)
  then show ?case by simp
next
  case (3 sep x y ys)
  show ?case
  proof (cases "c = x")
    case True
    then show ?thesis by simp
  next
    case False
    with 3 have "sublist c (join sep (y # ys))" by simp
    then have "sublist c ((x @ sep) @ join sep (y # ys))"
      unfolding sublist_def by (metis append.assoc)
    then show ?thesis by simp
  qed
qed

lemma repr_char_plain:
  "is_printable c \<Longrightarrow> c \<noteq> CHR 0x5C \<Longrightarrow> c \<noteq> CHR 0x27 \<Longrightarrow> repr_char (CHR 0x27) c = [c]"
  by (auto simp: repr_char_def is_printable_def)

lemma py_repr_plain: "plain_text s \<Longrightarrow> py_repr s = [CHR 0x27] @ s @ [CHR 0x27]"
proof -
  assume p: "plain_text s"
  then have "CHR 0x27 \<notin> set s" by (auto simp: plain_text_def list_all_iff)
  moreover from p have "concat (map (repr_char (CHR 0x27)) s) = s"
    by (induction s) (simp_all add: plain_text_def repr_char_plain)
  ultimately show ?thesis by (simp add: py_repr_def Let_def)
qed

text \<open>The escapes of \<^verbatim>\<open>repr\<close>: a backslash, a line feed, a single quote, an escape character.\<close>

lemma py_repr_escapes:
  "py_repr [CHR ''a'', CHR 0x5C, CHR ''b''] =
     [CHR 0x27, CHR ''a'', CHR 0x5C, CHR 0x5C, CHR ''b'', CHR 0x27] \<and>
   py_repr [CHR ''a'', CHR 0x0A, CHR ''b''] =
     [CHR 0x27, CHR ''a'', CHR 0x5C, CHR ''n'', CHR ''b'', CHR 0x27] \<and>
   py_repr [CHR ''a'', CHR 0x27, CHR ''b''] = [CHR 0x22, CHR ''a'', CHR 0x27, CHR ''b'', CHR 0x22] \<and>
   py_repr [CHR 0x1B] = [CHR 0x27, CHR 0x5C, CHR ''x'', CHR ''1'', CHR ''b'', CHR 0x27]"
  by (simp add: py_repr_def repr_char_def is_printable_def hex_digit_def Let_def)

lemma sublist_py_repr_list: "c \<in> set xs \<Longrightarrow> sublist (py_repr c) (py_repr_list xs)"
proof -
  assume "c \<in> set xs"
  then have "py_repr c \<in> set (map py_repr xs)" by simp
  then have "sublist (py_repr c) (join '', '' (map py_repr xs))" by (rule sublist_join)
  then show ?thesis unfolding py_repr_list_def sublist_def by (metis append.assoc)
qed

lemma get_position_found:
  assumes "thead data_table = Some columns" and "column_name \<in> set columns"
  shows "\<exists>i. get_position data_table column_name = Inr i \<and> i < length columns \<and>
             columns ! i = column_name \<and> (\<forall>j<i. columns ! j \<noteq> column_name)"
proof -
  from assms(2) obtain i where i: "py_index columns column_name = Some i"
    using py_index_None [of columns column_name] by auto
  from py_index_Some [OF i] i assms(1) show ?thesis
    by (auto simp: get_position_def)
qed

text \<open>
  C7. On a header row, \<^verbatim>\<open>get_position\<close> returns the zero-based index of the first cell
  equal to the column name. When no cell is equal, it raises an exception whose message
  says "not found" and ends with the \<^verbatim>\<open>repr\<close> of the whole header list: every header
  name stands in the message as \<^verbatim>\<open>repr\<close> writes it, and as it is when it is a plain text
  (printable characters, no backslash, no single quote).
\<close>

theorem get_position_locates:
  assumes "thead data_table = Some columns"
  shows "(column_name \<in> set columns \<longrightarrow>
            (\<exists>i. get_position data_table column_name = Inr i \<and> i < length columns \<and>
                 columns ! i = column_name \<and> (\<forall>j<i. columns ! j \<noteq> column_name))) \<and>
         (column_name \<notin> set columns \<longrightarrow>
            (\<exists>message. get_position data_table column_name = Inl (Exception message) \<and>
                 sublist ''not found'' message \<and>
                 suffix (py_repr_list columns) message \<and>
                 (\<forall>c\<in>set columns. sublist (py_repr c) message \<and>
                                    (plain_text c \<longrightarrow> sublist c message))))"
proof (intro conjI impI)
  assume "column_name \<in> set columns"
  with assms
  show "\<exists>i. get_position data_table column_name = Inr i \<and> i < length columns \<and>
          columns ! i = column_name \<and> (\<forall>j<i. columns ! j \<noteq> column_name)"
    by (rule get_position_found)
next
  assume "column_name \<notin> set columns"
  then have none: "py_index columns column_name = None" by (simp add: py_index_None)
  let ?m = "''Column '' @ column_name @ '' not found in sensor data '' @ py_repr_list columns"
  have "get_position data_table column_name = Inl (Exception ?m)"
    using assms none by (simp add: get_position_def)
  moreover have "sublist ''not found'' ?m"
    unfolding sublist_def
    by (rule exI [of _ "''Column '' @ column_name @ '' ''"],
        rule exI [of _ "'' in sensor data '' @ py_repr_list columns"]) simp
  moreover have "suffix (py_repr_list columns) ?m"
    unfolding suffix_def
    by (rule exI [of _ "''Column '' @ column_name @ '' not found in sensor data ''"]) simp
  moreover have "\<forall>c\<in>set columns. sublist (py_repr c) ?m \<and> (plain_text c \<longrightarrow> sublist c ?m)"
  proof (intro ballI conjI impI)
    fix c assume c: "c \<in> set columns"
    then have "sublist (py_repr c) (py_repr_list columns)" by (rule sublist_py_repr_list)
    then show listed: "sublist (py_repr c) ?m" unfolding sublist_def by (metis append.assoc)
    assume "plain_text c"
    then have "py_repr c = [CHR 0x27] @ c @ [CHR 0x27]" by (rule py_repr_plain)
    then have "sublist c (py_repr c)" by (simp only: sublist_appendI)
    from this listed show "sublist c ?m" by (rule sublist_order.order.trans)
  qed
  ultimately show "\<exists>message. get_position data_table column_name = Inl (Exception message) \<and>
      sublist ''not found'' message \<and> suffix (py_repr_list columns) message \<and>
      (\<forall>c\<in>set columns. sublist (py_repr c) message \<and> (plain_text c \<longrightarrow> sublist c message))"
    by blast
qed

text \<open>
  The example of the specification: "Temperature" is at index 1 of Time, Temperature,
  Humidity, and "Pressure" is not found.
\<close>

theorem get_position_locates_witness:
  "get_position (example_table []) ''Temperature'' = Inr 1 \<and>
   plain_text ''Humidity'' \<and>
   get_position (example_table []) ''Pressure'' =
     Inl (Exception (''Column Pressure not found in sensor data ['' @
            [CHR 0x27] @ ''Time'' @ [CHR 0x27] @ '', '' @
            [CHR 0x27] @ ''Temperature'' @ [CHR 0x27] @ '', '' @
            [CHR 0x27] @ ''Humidity'' @ [CHR 0x27] @ '']''))"
  using get_position_locates [of "example_table []" "[''Time'', ''Temperature'', ''Humidity'']" "''Temperature''"]
    get_position_locates [of "example_table []" "[''Time'', ''Temperature'', ''Humidity'']" "''Pressure''"]
  by (simp add: example_table_def get_position_def py_repr_list_def py_repr_def repr_char_def
        is_printable_def plain_text_def Let_def)

subsection \<open>The empty column\<close>

text \<open>
  C5. When the page has a table whose header holds the configured column and whose body is
  empty, \<^verbatim>\<open>get_measurements\<close> returns the empty list with the empty unit, and
  \<^verbatim>\<open>get_reading\<close> returns the int 0 with the empty unit string; it raises nothing.
\<close>

theorem get_reading_empty_column:
  assumes table: "get_results_table w (mad_device_id self) (mad_duration self) =
                    (Inr (Some data_table), ev)"
      and col: "mad_device_class self = Some c" "map_of DEVICE_CLASS c = Some column_name"
      and head: "thead data_table = Some columns" "column_name \<in> set columns"
      and body: "tbody data_table = Some []"
  shows "get_measurements h data_table column_name True = Inr ([], '''') \<and>
         get_reading h w self = (Inr (Some (PyInt 0), ''''), ev)"
proof -
  from get_position_found [OF head]
  obtain i where "get_position data_table column_name = Inr i" by auto
  with body have m: "get_measurements h data_table column_name True = Inr ([], '''')"
    by (simp add: get_measurements_def)
  with table col show ?thesis by (simp add: get_reading_def)
qed

text \<open>A served page whose table has the Temperature column and an empty body.\<close>

theorem get_reading_empty_column_witness:
  "fst (get_reading example_helpers (example_world 1793707200 (Response 200 [example_table []]))
          example_mad) = Inr (Some (PyInt 0), '''')"
  using get_reading_empty_column
    [of "example_world 1793707200 (Response 200 [example_table []])" example_mad
        "example_table []"
        "snd (get_results_table (example_world 1793707200 (Response 200 [example_table []]))
               (mad_device_id example_mad) (mad_duration example_mad))"
        "''temperature''" "''Temperature''" "[''Time'', ''Temperature'', ''Humidity'']"
        example_helpers]
  by (simp add: get_results_table_def example_world_def example_mad_def example_table_def
        DEVICE_CLASS_def Let_def)

subsection \<open>The mode option\<close>

text \<open>
  C10. \<^verbatim>\<open>async_setup_platform\<close> never reads the mode option: two configurations that
  differ in it only set up the same entities. A non-empty device id gives one historic
  entity that owns a fetcher, added with an update first; an empty device id gives, if
  anything, current entities only, which own no fetcher and read the configured weather
  entity. An entity holds no mode, so its updates cannot depend on the option.
\<close>

theorem setup_ignores_mode:
  "async_setup_platform hs (cfg\<lparr>conf_mode := m\<rparr>) = async_setup_platform hs cfg \<and>
   (conf_device_id cfg \<noteq> '''' \<longrightarrow>
      (\<exists>mad. async_setup_platform hs cfg = Inr [([historic (conf_name cfg) mad], True)])) \<and>
   (conf_device_id cfg = '''' \<longrightarrow>
      (case async_setup_platform hs cfg of
         Inl e \<Rightarrow> True
       | Inr calls \<Rightarrow>
           list_all (\<lambda>(entities, update_before_add).
                       \<not> update_before_add \<and>
                       list_all (\<lambda>entity. sensor_mad entity = None \<and>
                                           sensor_weather entity = conf_weather cfg) entities)
                    calls))"
  by (auto simp: async_setup_platform_def Let_def list_all_iff current_def
        MobileAlertsWeather_init_def split: option.splits)

text \<open>
  With a device id the mode option "current" still sets up the historic entity, and without
  one the option "historic" still sets up the current entities.
\<close>

theorem setup_ignores_mode_witness:
  "async_setup_platform example_hass (example_config ''0301548CBC4A'' ''current'') =
     async_setup_platform example_hass (example_config ''0301548CBC4A'' ''historic'') \<and>
   async_setup_platform example_hass (example_config ''0301548CBC4A'' ''current'') =
     Inr [([historic ''MA Garden''
              (MobileAlertsData_init example_hass ''0301548CBC4A'' (Some ''temperature'')
                 (Some CONF_MAXIMUM) 24)], True)] \<and>
   async_setup_platform example_hass (example_config [] ''historic'') =
     Inr [([current ''ma garden_temperature'' ''temperature'' ''weather.home''], False),
          ([current ''ma garden_humidity'' ''humidity'' ''weather.home''], False)]"
  using setup_ignores_mode [where hs = example_hass and m = "''current''"
      and cfg = "example_config ''0301548CBC4A'' ''historic''"]
    setup_ignores_mode [where hs = example_hass and m = "''current''"
      and cfg = "example_config [] ''historic''"]
  by (simp add: example_config_def example_hass_def async_setup_platform_def Let_def py_lower_def)

subsection \<open>The fetch layer and the events\<close>

lemma get_results_table_cases:
  "get_results_table w device_id duration =
     (let url = get_device_history_url (dt_now w) device_id duration;
          get = HttpGet url [(''User-Agent'', ''Mozilla/5.0'')]
      in case requests_get w url of
           Raises e \<Rightarrow>
             if e = ConnectionError
             then (Inr None, [get, Warning (''Unable to connect to MA URL : '' @ url)])
             else if e = TimeoutError
             then (Inr None, [get, Warning ''Timeout connecting to MA URL''])
             else (Inl e, [get])
         | Response status_code tables \<Rightarrow>
             if status_code \<noteq> 200
             then (Inl (Exception (''requests getting data: '' @ str_nat status_code @ '', '' @ url)),
                   [get])
             else if tables = []
             then (Inr None, [get, Warning (''No data returned : '' @ url)])
             else (Inr (Some (hd tables)), [get]))"
  by (cases "requests_get w (get_device_history_url (dt_now w) device_id duration)")
     (auto simp: get_results_table_def Let_def hd_conv_nth)

lemma requests_of_get_results_table:
  "requests_of (snd (get_results_table w device_id duration)) =
     [get_device_history_url (dt_now w) device_id duration]"
  by (cases "requests_get w (get_device_history_url (dt_now w) device_id duration)")
     (simp_all add: get_results_table_def Let_def)

lemma events_get_reading:
  "snd (get_reading h w self) =
     snd (get_results_table w (mad_device_id self) (mad_duration self))"
  by (simp add: get_reading_def split: prod.splits sum.splits option.splits)

lemma requests_of_update_body:
  "requests_of (snd (update_body h w self)) =
     [get_device_history_url (dt_now w) (mad_device_id self) (mad_duration self)]"
proof -
  have app: "requests_of (ev @ [Warning m]) = requests_of ev" for ev m
    by (induction ev rule: requests_of.induct) simp_all
  obtain r ev where g: "get_reading h w self = (r, ev)" by (cases "get_reading h w self")
  with events_get_reading [of h w self]
  have "requests_of ev = [get_device_history_url (dt_now w) (mad_device_id self) (mad_duration self)]"
    by (simp add: requests_of_get_results_table)
  with g show ?thesis
    by (simp add: update_body_def app split: sum.splits prod.splits option.splits)
qed

lemma requests_of_mad_update:
  "throttle_open w self \<Longrightarrow>
     requests_of (snd (mad_update h w self)) =
       [get_device_history_url (dt_now w) (mad_device_id self) (mad_duration self)]"
  using requests_of_update_body [of h w self]
  by (cases "update_body h w self") (auto simp: mad_update_def split: sum.splits)

lemma mad_update_throttled:
  "\<not> throttle_open w self \<Longrightarrow> mad_update h w self = (Inr self, [])"
  by (simp add: mad_update_def)

lemma mad_update_stamp:
  assumes "throttle_open w self" and "fst (mad_update h w self) = Inr self'"
  shows "mad_throttle self' = Some (utcnow_after w)"
  using assms by (cases "update_body h w self") (auto simp: mad_update_def split: sum.splits)

lemma str_nat_500: "str_nat 500 = ''500''"
  by (simp add: str_nat.simps digit_char_def)

subsection \<open>The throttle\<close>

text \<open>
  C9, as amended. Take two update invocations on one fetcher, the first of which ran the
  fetch body and returned without raising. The second issues no request (it does nothing at
  all) when it starts at most one hour after the first returned, and it issues a new request
  when it starts more than one hour after. An invocation that raises, or that is itself
  skipped, starts no window.
\<close>

theorem throttled_update_pair:
  assumes "throttle_open w self" and "fst (mad_update h w self) = Inr self'"
  shows "(utcnow_before w' - utcnow_after w \<le> MIN_TIME_BETWEEN_UPDATES \<longrightarrow>
            mad_update h w' self' = (Inr self', []) \<and>
            requests_of (snd (mad_update h w' self')) = []) \<and>
         (MIN_TIME_BETWEEN_UPDATES < utcnow_before w' - utcnow_after w \<longrightarrow>
            requests_of (snd (mad_update h w' self')) =
              [get_device_history_url (dt_now w') (mad_device_id self') (mad_duration self')])"
proof -
  from mad_update_stamp [OF assms] have
    open2: "throttle_open w' self' \<longleftrightarrow>
              MIN_TIME_BETWEEN_UPDATES < utcnow_before w' - utcnow_after w"
    by (simp add: throttle_open_def)
  show ?thesis
  proof (intro conjI impI)
    assume "utcnow_before w' - utcnow_after w \<le> MIN_TIME_BETWEEN_UPDATES"
    with open2 have "\<not> throttle_open w' self'" by simp
    then show "mad_update h w' self' = (Inr self', [])" by (rule mad_update_throttled)
    then show "requests_of (snd (mad_update h w' self')) = []" by simp
  next
    assume "MIN_TIME_BETWEEN_UPDATES < utcnow_before w' - utcnow_after w"
    with open2 have "throttle_open w' self'" by simp
    then show "requests_of (snd (mad_update h w' self')) =
        [get_device_history_url (dt_now w') (mad_device_id self') (mad_duration self')]"
      by (rule requests_of_mad_update)
  qed
qed

text \<open>
  A fetcher whose first update returned at 12:00:00.25: an update half an hour later is
  skipped, one an hour and a second later issues the GET.
\<close>

theorem throttled_update_pair_witness:
  "mad_update example_helpers (example_world (1793707200 + 1800) (Response 200 []))
      (example_mad\<lparr>mad_throttle := Some (1793707200 * 1000000 + 250000)\<rparr>) =
     (Inr (example_mad\<lparr>mad_throttle := Some (1793707200 * 1000000 + 250000)\<rparr>), []) \<and>
   requests_of (snd (mad_update example_helpers (example_world (1793707200 + 3601) (Response 200 []))
      (example_mad\<lparr>mad_throttle := Some (1793707200 * 1000000 + 250000)\<rparr>))) =
     [get_device_history_url (dt_now (example_world (1793707200 + 3601) (Response 200 [])))
        ''0301548CBC4A'' 24]"
  using throttled_update_pair [where h = example_helpers and self = example_mad
      and w = "example_world 1793707200 (Response 200 [])"
      and self' = "example_mad\<lparr>mad_throttle := Some (1793707200 * 1000000 + 250000)\<rparr>"
      and w' = "example_world (1793707200 + 1800) (Response 200 [])"]
    throttled_update_pair [where h = example_helpers and self = example_mad
      and w = "example_world 1793707200 (Response 200 [])"
      and self' = "example_mad\<lparr>mad_throttle := Some (1793707200 * 1000000 + 250000)\<rparr>"
      and w' = "example_world (1793707200 + 3601) (Response 200 [])"]
  by (simp add: throttle_open_def mad_update_def update_body_def get_reading_def
        get_results_table_def Let_def example_mad_def example_world_def
        MIN_TIME_BETWEEN_UPDATES_def)

text \<open>
  C9 as stated fails: when the first update raises (here on a status 500), no time stamp is
  taken, and a second update one minute later issues a second request.
\<close>

theorem throttle_after_exception_counterexample:
  "fst (mad_update example_helpers (example_world 1793707200 (Response 500 [])) example_mad) =
     Inl (Exception (''requests getting data: 500, '' @
            get_device_history_url (dt_now (example_world 1793707200 (Response 500 [])))
              ''0301548CBC4A'' 24)) \<and>
   utcnow_before (example_world (1793707200 + 60) (Response 200 [example_table []])) -
     utcnow_after (example_world 1793707200 (Response 500 [])) \<le> MIN_TIME_BETWEEN_UPDATES \<and>
   requests_of (snd (mad_update example_helpers
       (example_world (1793707200 + 60) (Response 200 [example_table []])) example_mad)) =
     [get_device_history_url
        (dt_now (example_world (1793707200 + 60) (Response 200 [example_table []])))
        ''0301548CBC4A'' 24]"
proof (intro conjI)
  show "fst (mad_update example_helpers (example_world 1793707200 (Response 500 [])) example_mad) =
     Inl (Exception (''requests getting data: 500, '' @
            get_device_history_url (dt_now (example_world 1793707200 (Response 500 [])))
              ''0301548CBC4A'' 24))"
    by (simp add: throttle_open_def mad_update_def update_body_def get_reading_def
          get_results_table_def Let_def example_mad_def example_world_def str_nat_500)
  show "utcnow_before (example_world (1793707200 + 60) (Response 200 [example_table []])) -
     utcnow_after (example_world 1793707200 (Response 500 [])) \<le> MIN_TIME_BETWEEN_UPDATES"
    by (simp add: example_world_def MIN_TIME_BETWEEN_UPDATES_def)
  have "throttle_open (example_world (1793707200 + 60) (Response 200 [example_table []]))
          example_mad"
    by (simp add: throttle_open_def example_mad_def)
  from requests_of_mad_update [OF this, of example_helpers]
  show "requests_of (snd (mad_update example_helpers
       (example_world (1793707200 + 60) (Response 200 [example_table []])) example_mad)) =
     [get_device_history_url
        (dt_now (example_world (1793707200 + 60) (Response 200 [example_table []])))
        ''0301548CBC4A'' 24]"
    by (simp add: example_mad_def)
qed

subsection \<open>Failures of the GET\<close>

text \<open>
  What the handlers of \<^verbatim>\<open>get_results_table\<close> do: an exception of the built-in classes
  ConnectionError or TimeoutError gives "no data", and a status other than 200 raises.
\<close>

lemma get_results_table_handlers:
  "fst (get_results_table (w\<lparr>requests_get := \<lambda>url. Raises ConnectionError\<rparr>) device_id duration) =
     Inr None \<and>
   fst (get_results_table (w\<lparr>requests_get := \<lambda>url. Raises TimeoutError\<rparr>) device_id duration) =
     Inr None \<and>
   (status_code \<noteq> 200 \<longrightarrow>
      (\<exists>message.
         fst (get_results_table (w\<lparr>requests_get := \<lambda>url. Response status_code tables\<rparr>)
                device_id duration) = Inl (Exception message)))"
  by (simp add: get_results_table_def Let_def)

text \<open>
  C3 fails on the code by a slip: the handlers name the built-in classes, and what
  \<^verbatim>\<open>requests.get\<close> raises on a connection failure or a timeout is an exception of
  \<^verbatim>\<open>requests.exceptions\<close>, which they do not catch. It leaves \<^verbatim>\<open>get_results_table\<close>,
  and with it the update of a fresh fetcher, as an exception.
\<close>

theorem requests_failure_propagates:
  "fst (get_results_table (w\<lparr>requests_get := \<lambda>url. Raises RequestsConnectionError\<rparr>)
          device_id duration) = Inl RequestsConnectionError \<and>
   fst (get_results_table (w\<lparr>requests_get := \<lambda>url. Raises RequestsTimeout\<rparr>)
          device_id duration) = Inl RequestsTimeout \<and>
   fst (mad_update example_helpers (example_world 1793707200 (Raises RequestsConnectionError))
          example_mad) = Inl RequestsConnectionError"
  by (simp add: get_results_table_def Let_def mad_update_def update_body_def get_reading_def
        throttle_open_def example_mad_def example_world_def)

subsection \<open>The cache on an update without data\<close>

lemma get_reading_no_data:
  assumes "fst (get_results_table w (mad_device_id self) (mad_duration self)) = Inr None"
  shows "fst (get_reading h w self) = Inr (None, '''')"
  using assms
  by (cases "get_results_table w (mad_device_id self) (mad_duration self)")
     (simp add: get_reading_def)

lemma update_body_no_data:
  assumes "fst (get_results_table w (mad_device_id self) (mad_duration self)) = Inr None"
  shows "fst (update_body h w self) = Inr self"
  using get_reading_no_data [OF assms, of h]
  by (cases "get_reading h w self") (simp add: update_body_def)

lemma mad_update_no_data:
  assumes "fst (get_results_table w (mad_device_id self) (mad_duration self)) = Inr None"
  shows "\<exists>self'. fst (mad_update h w self) = Inr self' \<and>
           mad_data self' = mad_data self \<and> mad_unit self' = mad_unit self"
  using update_body_no_data [OF assms, of h]
  by (cases "update_body h w self") (auto simp: mad_update_def)

lemma empty_body_reading:
  assumes table: "get_results_table w (mad_device_id self) (mad_duration self) =
                    (Inr (Some data_table), ev)"
      and col: "mad_device_class self = Some c" "map_of DEVICE_CLASS c = Some column_name"
      and head: "thead data_table = Some columns" "column_name \<in> set columns"
      and body: "tbody data_table = Some []"
  shows "get_measurements h data_table column_name True = Inr ([], '''')"
    and "get_reading h w self = (Inr (Some (PyInt 0), ''''), ev)"
proof -
  from get_position_found [OF head]
  obtain i where "get_position data_table column_name = Inr i" by auto
  with body show m: "get_measurements h data_table column_name True = Inr ([], '''')"
    by (simp add: get_measurements_def)
  with table col show "get_reading h w self = (Inr (Some (PyInt 0), ''''), ev)"
    by (simp add: get_reading_def)
qed

text \<open>
  C4, as amended. When the GET ends in a caught connection or timeout failure, or answers
  with a page without a table, the update returns with the data and the unit of the fetcher
  as they were, and a historic sensor reads these same values back. When the table has the
  column and an empty body, an update that is not throttled stores the value 0 and the
  empty unit.
\<close>

theorem update_without_data:
  "(requests_get w (get_device_history_url (dt_now w) (mad_device_id self) (mad_duration self))
      \<in> {Raises ConnectionError, Raises TimeoutError, Response 200 []} \<longrightarrow>
      (\<exists>self'. fst (mad_update h w self) = Inr self' \<and>
           mad_data self' = mad_data self \<and> mad_unit self' = mad_unit self) \<and>
      (sensor_weather s = None \<and> sensor_mad s = Some self \<longrightarrow>
         (\<exists>s'. fst (sensor_update h hs w s) = Inr s' \<and>
            sensor_state s' = mad_data self \<and>
            sensor_unit_of_measurement s' = mad_unit self))) \<and>
   (throttle_open w self \<and>
    requests_get w (get_device_history_url (dt_now w) (mad_device_id self) (mad_duration self))
      = Response 200 (data_table # tables) \<and>
    mad_device_class self = Some c \<and> map_of DEVICE_CLASS c = Some column_name \<and>
    thead data_table = Some columns \<and> column_name \<in> set columns \<and>
    tbody data_table = Some [] \<longrightarrow>
      (\<exists>self'. fst (mad_update h w self) = Inr self' \<and>
           mad_data self' = Some (PyInt 0) \<and> mad_unit self' = Some ''''))"
proof (intro conjI impI)
  assume "requests_get w (get_device_history_url (dt_now w) (mad_device_id self) (mad_duration self))
      \<in> {Raises ConnectionError, Raises TimeoutError, Response 200 []}"
  then have none: "fst (get_results_table w (mad_device_id self) (mad_duration self)) = Inr None"
    by (auto simp: get_results_table_cases Let_def)
  from mad_update_no_data [OF none]
  show keep: "\<exists>self'. fst (mad_update h w self) = Inr self' \<and>
           mad_data self' = mad_data self \<and> mad_unit self' = mad_unit self" .
  assume "sensor_weather s = None \<and> sensor_mad s = Some self"
  with keep show "\<exists>s'. fst (sensor_update h hs w s) = Inr s' \<and>
            sensor_state s' = mad_data self \<and> sensor_unit_of_measurement s' = mad_unit self"
    by (cases "mad_update h w self") (auto simp: sensor_update_def)
next
  assume a: "throttle_open w self \<and>
    requests_get w (get_device_history_url (dt_now w) (mad_device_id self) (mad_duration self))
      = Response 200 (data_table # tables) \<and>
    mad_device_class self = Some c \<and> map_of DEVICE_CLASS c = Some column_name \<and>
    thead data_table = Some columns \<and> column_name \<in> set columns \<and>
    tbody data_table = Some []"
  then have "get_results_table w (mad_device_id self) (mad_duration self) =
      (Inr (Some data_table),
       [HttpGet (get_device_history_url (dt_now w) (mad_device_id self) (mad_duration self))
          [(''User-Agent'', ''Mozilla/5.0'')]])"
    by (simp add: get_results_table_cases Let_def)
  from empty_body_reading(2) [OF this, of c column_name columns h] a
  have "fst (get_reading h w self) = Inr (Some (PyInt 0), '''')" by simp
  then have "fst (update_body h w self) =
      Inr (self\<lparr>mad_data := Some (PyInt 0), mad_unit := Some ''''\<rparr>)"
    by (cases "get_reading h w self") (simp add: update_body_def)
  with a show "\<exists>self'. fst (mad_update h w self) = Inr self' \<and>
           mad_data self' = Some (PyInt 0) \<and> mad_unit self' = Some ''''"
    by (cases "update_body h w self") (auto simp: mad_update_def)
qed

text \<open>A fetcher that holds 21.5 C keeps it over a connection failure, a page without table
  and a timeout.\<close>

theorem update_without_data_witness:
  "map_sum id (\<lambda>self'. (mad_data self', mad_unit self'))
     (fst (mad_update example_helpers (example_world 1793707200 (Raises ConnectionError))
             example_cached)) = Inr (Some (PyFloat (43 / 2)), Some ''C'') \<and>
   map_sum id (\<lambda>self'. (mad_data self', mad_unit self'))
     (fst (mad_update example_helpers (example_world 1793707200 (Response 200 []))
             example_cached)) = Inr (Some (PyFloat (43 / 2)), Some ''C'') \<and>
   map_sum id (\<lambda>s'. (sensor_state s', sensor_unit_of_measurement s'))
     (fst (sensor_update example_helpers example_hass
             (example_world 1793707200 (Raises TimeoutError))
             (historic ''MA Garden'' example_cached))) =
     Inr (Some (PyFloat (43 / 2)), Some ''C'')"
  using update_without_data [where h = example_helpers and self = example_cached
      and w = "example_world 1793707200 (Raises ConnectionError)"
      and s = "historic ''MA Garden'' example_cached" and hs = example_hass]
    update_without_data [where h = example_helpers and self = example_cached
      and w = "example_world 1793707200 (Response 200 [])"
      and s = "historic ''MA Garden'' example_cached" and hs = example_hass]
    update_without_data [where h = example_helpers and self = example_cached
      and w = "example_world 1793707200 (Raises TimeoutError)"
      and s = "historic ''MA Garden'' example_cached" and hs = example_hass]
  by (auto simp: example_world_def example_cached_def example_mad_def historic_def
        MobileAlertsWeather_init_def)

text \<open>
  C4 as stated fails for the empty column: the fetcher that holds 21.5 C holds 0 with the
  empty unit after an update that finds the Temperature column empty.
\<close>

theorem update_empty_column_counterexample:
  "map_sum id (\<lambda>self'. (mad_data self', mad_unit self'))
     (fst (mad_update example_helpers (example_world 1793707200 (Response 200 [example_table []]))
             example_cached)) = Inr (Some (PyInt 0), Some '''') \<and>
   (mad_data example_cached, mad_unit example_cached) = (Some (PyFloat (43 / 2)), Some ''C'')"
  by (simp add: mad_update_def update_body_def get_reading_def get_results_table_def
        get_measurements_def get_position_def throttle_open_def Let_def DEVICE_CLASS_def
        example_cached_def example_mad_def example_world_def example_table_def)

subsection \<open>The URL builder\<close>

lemma py_int_micro:
  "0 \<le> a \<Longrightarrow> py_int (of_int a / 1000000) = a div 1000000"
proof -
  assume "0 \<le> a"
  then have "py_int (of_int a / 1000000) = \<lfloor>(of_int a :: rat) / of_int 1000000\<rfloor>"
    by (simp add: py_int_def)
  also have "\<dots> = a div 1000000" by (rule floor_divide_of_int_eq)
  finally show ?thesis .
qed

lemma history_params_eq:
  "history_params now device_id duration =
     [(''vendorid'', PStr ''bb8e868c-e5fd-4130-8d72-b08d1013c98e''),
      (''appbundle'', PStr ''eu.mobile_alerts.mobilealerts''),
      (''deviceid'', PStr device_id),
      (''fromepoch'', PInt (py_int (timestamp (minus_seconds now (duration * 60 * 60))))),
      (''toepoch'', PInt (py_int (timestamp now)))]"
  by (simp add: history_params_def Let_def)

text \<open>
  What holds of the window: when the zone has the same offset at both ends of the window,
  the duration is not negative and the window starts at or after the epoch, the two epoch
  parameters are \<open>duration * 3600\<close> seconds apart.
\<close>

lemma history_window:
  assumes same: "dt_utcoffset now (dt_wall now - duration * 3600 * 1000000) False =
                   dt_utcoffset now (dt_wall now) (dt_fold now)"
      and start: "0 \<le> timestamp (minus_seconds now (duration * 60 * 60))"
      and dur: "0 \<le> duration"
  shows "py_int (timestamp now) - py_int (timestamp (minus_seconds now (duration * 60 * 60))) =
           duration * 3600"
proof -
  define t where "t = dt_wall now - dt_utcoffset now (dt_wall now) (dt_fold now)"
  define d where "d = duration * 3600"
  have ts: "timestamp now = of_int t / 1000000"
    by (simp add: timestamp_def t_def)
  have ts': "timestamp (minus_seconds now (duration * 60 * 60)) = of_int (t - d * 1000000) / 1000000"
    using same by (simp add: timestamp_def minus_seconds_def t_def d_def algebra_simps)
  from start have nonneg: "0 \<le> t - d * 1000000"
    unfolding ts' by (simp add: zero_le_divide_iff)
  from dur have "0 \<le> d" by (simp add: d_def)
  with nonneg have t0: "0 \<le> t" by simp
  have "t - d * 1000000 = t + (- d) * 1000000" by simp
  then have div: "(t - d * 1000000) div 1000000 = t div 1000000 - d"
    by (simp only: div_mult_self3)
  have "py_int (timestamp now) = t div 1000000"
    unfolding ts by (rule py_int_micro [OF t0])
  moreover have "py_int (timestamp (minus_seconds now (duration * 60 * 60))) =
      t div 1000000 - d"
    unfolding ts' div [symmetric] by (rule py_int_micro [OF nonneg])
  ultimately show ?thesis by (simp add: d_def)
qed

lemma str_int_from: "str_int (- 6292799) = ''-6292799''"
  by (simp add: str_int_def str_nat.simps digit_char_def)

lemma str_int_to: "str_int 1793707200 = ''1793707200''"
  by (simp add: str_int_def str_nat.simps digit_char_def)

lemma get_device_history_url_eq:
  "get_device_history_url now device_id duration =
     ''https://measurements.mobile-alerts.eu/Home/MeasurementDetails?vendorid=bb8e868c-e5fd-4130-8d72-b08d1013c98e&appbundle=eu.mobile_alerts.mobilealerts&deviceid=''
       @ device_id
       @ ''&fromepoch='' @ str_int (py_int (timestamp (minus_seconds now (duration * 60 * 60))))
       @ ''&toepoch='' @ str_int (py_int (timestamp now))"
  by (simp add: get_device_history_url_def history_params_def Let_def)

text \<open>The window of the default 24 hours at a fixed offset, 2026-11-03T12:00:00.5 UTC.\<close>

lemma history_window_example:
  "py_int (timestamp \<lparr>dt_wall = 1793707200500000, dt_fold = False,
                       dt_utcoffset = fixed_offset 0\<rparr>) -
   py_int (timestamp (minus_seconds
             \<lparr>dt_wall = 1793707200500000, dt_fold = False, dt_utcoffset = fixed_offset 0\<rparr>
             (24 * 60 * 60))) = 24 * 3600"
  using history_window [of "\<lparr>dt_wall = 1793707200500000, dt_fold = False,
                              dt_utcoffset = fixed_offset 0\<rparr>" 24]
  by (simp add: fixed_offset_def timestamp_def minus_seconds_def)

text \<open>
  C6 fails on the code in two cases. On 2026-10-25 at 12:00 in Berlin, the day summer time
  ends, the window of 24 hours is taken on the wall clock: the URL of the "last 24h" spans
  90000 seconds. And with a window that starts before the epoch, here 500000 hours back
  from 2026-11-03T12:00:00.5 UTC, \<^verbatim>\<open>int\<close> truncates the negative time stamp towards zero:
  the two parameters are 1799999999 seconds apart, one less than \<open>500000 * 3600\<close>.
\<close>

theorem history_window_failures:
  "history_params
     \<lparr>dt_wall = 1792929600000000, dt_fold = False, dt_utcoffset = berlin_autumn_2026\<rparr>
     ''0301548CBC4A'' 24 =
     [(''vendorid'', PStr ''bb8e868c-e5fd-4130-8d72-b08d1013c98e''),
      (''appbundle'', PStr ''eu.mobile_alerts.mobilealerts''),
      (''deviceid'', PStr ''0301548CBC4A''),
      (''fromepoch'', PInt 1792836000),
      (''toepoch'', PInt 1792926000)] \<and>
   (1792926000 :: int) - 1792836000 = 90000 \<and>
   get_device_history_url
     \<lparr>dt_wall = 1793707200500000, dt_fold = False, dt_utcoffset = fixed_offset 0\<rparr>
     ''0301548CBC4A'' 500000 =
     ''https://measurements.mobile-alerts.eu/Home/MeasurementDetails?vendorid=bb8e868c-e5fd-4130-8d72-b08d1013c98e&appbundle=eu.mobile_alerts.mobilealerts&deviceid=0301548CBC4A&fromepoch=-6292799&toepoch=1793707200'' \<and>
   (1793707200 :: int) - (- 6292799) = 500000 * 3600 - 1"
proof (intro conjI)
  show "history_params
     \<lparr>dt_wall = 1792929600000000, dt_fold = False, dt_utcoffset = berlin_autumn_2026\<rparr>
     ''0301548CBC4A'' 24 =
     [(''vendorid'', PStr ''bb8e868c-e5fd-4130-8d72-b08d1013c98e''),
      (''appbundle'', PStr ''eu.mobile_alerts.mobilealerts''),
      (''deviceid'', PStr ''0301548CBC4A''),
      (''fromepoch'', PInt 1792836000),
      (''toepoch'', PInt 1792926000)]"
    by (simp add: history_params_eq timestamp_def minus_seconds_def py_int_def
          berlin_autumn_2026_def)
  have "py_int (timestamp (minus_seconds
          \<lparr>dt_wall = 1793707200500000, dt_fold = False, dt_utcoffset = fixed_offset 0\<rparr>
          (500000 * 60 * 60))) = - 6292799"
    by (simp add: timestamp_def minus_seconds_def py_int_def fixed_offset_def)
  moreover have "py_int (timestamp
          \<lparr>dt_wall = 1793707200500000, dt_fold = False, dt_utcoffset = fixed_offset 0\<rparr>) =
        1793707200"
    by (simp add: timestamp_def py_int_def fixed_offset_def)
  ultimately show "get_device_history_url
     \<lparr>dt_wall = 1793707200500000, dt_fold = False, dt_utcoffset = fixed_offset 0\<rparr>
     ''0301548CBC4A'' 500000 =
     ''https://measurements.mobile-alerts.eu/Home/MeasurementDetails?vendorid=bb8e868c-e5fd-4130-8d72-b08d1013c98e&appbundle=eu.mobile_alerts.mobilealerts&deviceid=0301548CBC4A&fromepoch=-6292799&toepoch=1793707200''"
    by (simp add: get_device_history_url_eq str_int_from str_int_to)
qed simp_all

subsection \<open>The row value extractor\<close>

lemma cells_at_all:
  "\<forall>row\<in>set rows. col < length row \<Longrightarrow> cells_at col rows = Inr (map (\<lambda>row. row ! col) rows)"
  by (induction rows) simp_all

lemma slice_suffix:
  "0 < n \<Longrightarrow> length s = n \<Longrightarrow> py_slice_to_minus (int n) (t @ s) = t"
  by (simp add: py_slice_to_minus_def)

lemma slice_column:
  assumes "0 < n" and "length texts = length units" and "\<forall>s\<in>set units. length s = n"
  shows "map (py_slice_to_minus (int n)) (map2 (@) texts units) = texts"
  using assms(2,3)
proof (induction texts units rule: list_induct2)
  case Nil
  show ?case by simp
next
  case (Cons t ts s ss)
  with assms(1) show ?case by (simp add: slice_suffix)
qed

lemma scale_numeral:
  "scale (numeral k) a s =
     (if a < 4503599627370496 \<and> - 1074 < s then scale (pred_numeral k) (a * 2) (s - 1)
      else if 9007199254740992 \<le> a then scale (pred_numeral k) (a / 2) (s + 1)
      else (a, s))"
  using scale.simps(2) [of "pred_numeral k" a s] by (simp only: numeral_eq_Suc)

lemmas float_eval = py_float_def py_strip_def is_space_def unsigned_float_def is_digit_def
  digits_value_def exponent_def pow10_def to_double_def scale_numeral round_half_even_def Let_def

lemma py_float_examples:
  "py_float ''21.5'' = Inr (43 / 2)" "py_float ''20.25'' = Inr (81 / 4)"
  "py_float [] = Inl ValueError"
  by (simp_all add: float_eval)

text \<open>
  \<^verbatim>\<open>float\<close> rounds to the nearest double (0.35 is read as a double just below 7/20), and
  reads exponents, underscores between digits and blanks around the literal.
\<close>

lemma py_float_readings:
  "py_float ''0.35'' = Inr (3152519739159347 / 9007199254740992)"
  "py_float ''1e3'' = Inr 1000"
  "py_float ''1_000.5'' = Inr (2001 / 2)"
  "py_float '' -.5 '' = Inr (- (1 / 2))"
  "py_float ''5.'' = Inr 5"
  "py_float ''.'' = Inl ValueError"
  "py_float ''1__0'' = Inl ValueError"
  "py_float ''1e'' = Inl ValueError"
  by (simp_all add: float_eval)

lemma unit_suffix_examples:
  "unit_suffix ''21.5 C'' = '' C''" "unit_suffix ''21.5'' = []"
  by (simp_all add: unit_suffix_def is_digit_def)

text \<open>
  C8. Take a table whose column is located at \<open>col\<close>. An empty body yields the empty list
  with the empty unit. For a non-empty body whose rows all reach the column, let every cell
  of the column be decorated: a text followed by a unit suffix of the same length \<open>n\<close>, at
  least one character, the count the suffix parser reports on the first cell; and let the
  texts parse as the floats \<open>vs\<close>. Then the extractor returns exactly \<open>vs\<close>, in row order,
  with the unit label the parser gives for the first cell.
\<close>

theorem get_measurements_round_trip:
  assumes pos: "get_position data_table column_name = Inr col"
  shows "(tbody data_table = Some [] \<longrightarrow>
            get_measurements h data_table column_name is_numeric = Inr ([], '''')) \<and>
         (tbody data_table = Some rows \<and> rows \<noteq> [] \<and> (\<forall>row\<in>set rows. col < length row) \<and>
          map (\<lambda>row. row ! col) rows = map2 (@) texts units \<and>
          length texts = length units \<and>
          fst (extract_start_stop h (hd rows ! col)) = int n \<and> 0 < n \<and>
          (\<forall>s\<in>set units. length s = n) \<and>
          floats texts = Inr vs \<longrightarrow>
            get_measurements h data_table column_name True =
              Inr (map Reading vs, snd (extract_value_units h (Some (hd rows ! col)))))"
proof (intro conjI impI)
  assume "tbody data_table = Some []"
  with pos show "get_measurements h data_table column_name is_numeric = Inr ([], '''')"
    by (simp add: get_measurements_def)
next
  assume a: "tbody data_table = Some rows \<and> rows \<noteq> [] \<and> (\<forall>row\<in>set rows. col < length row) \<and>
          map (\<lambda>row. row ! col) rows = map2 (@) texts units \<and>
          length texts = length units \<and>
          fst (extract_start_stop h (hd rows ! col)) = int n \<and> 0 < n \<and>
          (\<forall>s\<in>set units. length s = n) \<and>
          floats texts = Inr vs"
  then have body: "tbody data_table = Some rows" and ne: "rows \<noteq> []"
    and wide: "\<forall>row\<in>set rows. col < length row"
    and cells: "map (\<lambda>row. row ! col) rows = map2 (@) texts units"
    and len: "length texts = length units"
    and n: "fst (extract_start_stop h (hd rows ! col)) = int n" "0 < n"
    and suf: "\<forall>s\<in>set units. length s = n"
    and vals: "floats texts = Inr vs"
    by simp_all
  let ?cells = "map (\<lambda>row. row ! col) rows"
  from wide have at: "cells_at col rows = Inr ?cells" by (rule cells_at_all)
  from ne have first: "?cells ! 0 = hd rows ! col" by (cases rows) simp_all
  have "map (py_slice_to_minus (int n)) ?cells = texts"
    unfolding cells using n(2) len suf by (rule slice_column)
  with vals have fl: "floats (map (py_slice_to_minus (int n)) ?cells) = Inr vs" by simp
  obtain k u where ess: "extract_start_stop h (hd rows ! col) = (k, u)"
    by (cases "extract_start_stop h (hd rows ! col)")
  with n(1) have k: "k = int n" by simp
  obtain v unit where evu: "extract_value_units h (Some (hd rows ! col)) = (v, unit)"
    by (cases "extract_value_units h (Some (hd rows ! col))")
  have "get_measurements h data_table column_name True = Inr (map Reading vs, unit)"
    unfolding get_measurements_def
    using ne fl by (simp add: pos body at first ess k evu)
  with evu show "get_measurements h data_table column_name True =
      Inr (map Reading vs, snd (extract_value_units h (Some (hd rows ! col))))"
    by simp
qed

text \<open>Two rows with the unit suffix " C" of two characters.\<close>

theorem get_measurements_round_trip_witness:
  "get_measurements example_helpers
     (example_table [[''12:00'', ''21.5 C'', ''40%''], [''11:53'', ''20.25 C'', ''41%'']])
     ''Temperature'' True = Inr ([Reading (43 / 2), Reading (81 / 4)], '' C'') \<and>
   get_measurements example_helpers (example_table []) ''Temperature'' True = Inr ([], [])"
  using get_measurements_round_trip [where h = example_helpers and col = 1 and n = 2
      and data_table = "example_table [[''12:00'', ''21.5 C'', ''40%''], [''11:53'', ''20.25 C'', ''41%'']]"
      and rows = "[[''12:00'', ''21.5 C'', ''40%''], [''11:53'', ''20.25 C'', ''41%'']]"
      and column_name = "''Temperature''" and texts = "[''21.5'', ''20.25'']"
      and units = "['' C'', '' C'']" and vs = "[43 / 2, 81 / 4]"]
    get_measurements_round_trip [where h = example_helpers and col = 1
      and data_table = "example_table []" and column_name = "''Temperature''"
      and is_numeric = True]
  by (simp add: example_table_def get_position_def example_helpers_def py_float_examples
        unit_suffix_examples)

end
